theory Spec2Isabelle
  imports Main
begin

section \<open>Python values, exceptions and dictionaries\<close>

text \<open>
  The module \<^verbatim>\<open>src/serena/mcp.py\<close> adapts the tools of a \<^verbatim>\<open>SerenaAgent\<close> to an MCP
  server, keeps one agent per project file in a process-wide registry and stops the
  language servers of all registered agents when the server's lifespan ends.

  Exceptions are values: a computation that may raise returns \<open>exn + 'a\<close>, with
  \<open>Inl\<close> the exception that propagates.
\<close>

datatype exn =
    AttributeError
  | ValueError
  | TypeError
  | KeyError
  | SystemExit nat
  | Exception string

datatype pyval = PNone | PBool bool | PInt int | PStr string

datatype pytype = TNone | TBool | TInt | TStr

fun type_of :: "pyval \<Rightarrow> pytype" where
  "type_of PNone = TNone"
| "type_of (PBool b) = TBool"
| "type_of (PInt i) = TInt"
| "type_of (PStr s) = TStr"

text \<open>A keyword-argument mapping \<^verbatim>\<open>**kwargs\<close>: a dictionary from names to values.\<close>

type_synonym kwargs = "(string \<times> pyval) list"

text \<open>
  A Python \<^verbatim>\<open>dict\<close> keeps its keys in insertion order. \<^verbatim>\<open>d[k] = v\<close> replaces the
  value of a key that is present, in place, and appends a key that is not.
\<close>

primrec setitem :: "'k \<Rightarrow> 'v \<Rightarrow> ('k \<times> 'v) list \<Rightarrow> ('k \<times> 'v) list" where
  "setitem k v [] = [(k, v)]"
| "setitem k v (e # es) = (if fst e = k then (k, v) # es else e # setitem k v es)"

definition dict_keys :: "('k \<times> 'v) list \<Rightarrow> 'k list" where
  "dict_keys d = map fst d"

definition dict_values :: "('k \<times> 'v) list \<Rightarrow> 'v list" where
  "dict_values d = map snd d"

text \<open>\<^verbatim>\<open>d[k]\<close> raises \<^verbatim>\<open>KeyError\<close> on a key that is not present.\<close>

definition getitem :: "('k \<times> 'v) list \<Rightarrow> 'k \<Rightarrow> exn + 'v" where
  "getitem d k = (case map_of d k of None \<Rightarrow> Inl KeyError | Some v \<Rightarrow> Inr v)"

text \<open>
  Objects live in a store and are named by their position in it: two references are the
  same object exactly when they are the same number. A reference that names no object
  cannot arise in Python; \<open>deref\<close> makes the lookup total.
\<close>

type_synonym ref = nat

definition deref :: "'a list \<Rightarrow> ref \<Rightarrow> 'a option" where
  "deref h r = (if r < length h then Some (h ! r) else None)"

section \<open>Tools, agents and the world\<close>

text \<open>
  A callable object, as far as this module looks at it: its \<^verbatim>\<open>__doc__\<close>, the
  parameters of its signature and what calling it with named arguments does.
\<close>

record callable =
  fn_doc :: "string option"
  fn_params :: "(string \<times> pytype) list"
  fn_body :: "kwargs \<Rightarrow> exn + string"

text \<open>
  What \<^verbatim>\<open>getattr(tool, "apply")\<close> can find: a callable, the value \<^verbatim>\<open>None\<close>, or some
  other object that cannot be called (with the \<^verbatim>\<open>__doc__\<close> of its type).
\<close>

datatype attr = Callable callable | IsNone | NotCallable pyval "string option"

text \<open>
  A \<^verbatim>\<open>serena.agent.Tool\<close>: the result of \<^verbatim>\<open>get_name()\<close> and the attribute
  \<^verbatim>\<open>apply\<close>, \<open>None\<close> when the object has no such attribute.
\<close>

record tool =
  get_name :: string
  apply_attr :: "attr option"

record backend =
  running :: bool

record agent =
  project_file :: string
  tools :: "(string \<times> tool) list"
  language_server :: ref

datatype event =
    LogInfo string
  | LogToolCall string kwargs
  | Stderr string
  | AgentInit string ref
  | LanguageServerStart ref
  | LanguageServerStop ref

text \<open>
  The state of the process: the module-level dictionary \<^verbatim>\<open>_SERENA_AGENT_REGISTRY\<close>,
  the agent objects and language-server objects constructed so far, and the effects
  performed so far, in order.
\<close>

record world =
  registry :: "(string \<times> ref) list"
  agents :: "agent list"
  servers :: "backend list"
  events :: "event list"

definition initial_world :: world where
  "initial_world = \<lparr>registry = [], agents = [], servers = [], events = []\<rparr>"

definition emit :: "event list \<Rightarrow> world \<Rightarrow> world" where
  "emit es w = w\<lparr>events := events w @ es\<rparr>"

text \<open>The JSON schema of a tool's parameters, passed through as it is.\<close>

datatype json = JString string | JObject "(string \<times> json) list"

record func_meta =
  arg_model_json_schema :: json

text \<open>
  The collaborators this module calls and whose code is not part of it are parameters:
  \<^item> \<open>agent_tools\<close>: the tools of the agent that \<^verbatim>\<open>SerenaAgent(path, ...)\<close> constructs;
  \<^item> \<open>func_metadata\<close>: the schema derivation of the MCP library, applied to the
    object found under \<^verbatim>\<open>apply\<close>;
  \<^item> \<open>stop_raises\<close>: the exception, if any, that \<^verbatim>\<open>stop()\<close> of a language server
    raises.
\<close>

record env =
  agent_tools :: "string \<Rightarrow> (string \<times> tool) list"
  func_metadata :: "attr \<Rightarrow> exn + func_meta"
  stop_raises :: "ref \<Rightarrow> exn option"

section \<open>The descriptor builder\<close>

record MCPTool =
  fn :: "kwargs \<Rightarrow> world \<Rightarrow> (exn + string) \<times> world"
  name :: string
  description :: string
  parameters :: json
  fn_metadata :: func_meta
  is_async :: bool
  context_kwarg :: "string option"

definition exn_message :: "exn \<Rightarrow> string" where
  "exn_message e = (case e of
      AttributeError \<Rightarrow> ''AttributeError''
    | ValueError \<Rightarrow> ''ValueError''
    | TypeError \<Rightarrow> ''TypeError''
    | KeyError \<Rightarrow> ''KeyError''
    | SystemExit n \<Rightarrow> ''SystemExit''
    | Exception m \<Rightarrow> m)"

text \<open>
  Modelled from the spec: \<^verbatim>\<open>Tool.apply_ex\<close> of \<^verbatim>\<open>serena.agent\<close>, which is not under
  \<^verbatim>\<open>src/\<close>. The spec: the execution entrypoint, configured to log the call and to catch
  all exceptions raised during execution, converts any exception into a descriptive
  string result rather than re-raising. Without \<open>catch_exceptions\<close> the exception
  propagates.
\<close>

definition apply_ex :: "tool \<Rightarrow> bool \<Rightarrow> bool \<Rightarrow> kwargs \<Rightarrow> world \<Rightarrow> (exn + string) \<times> world" where
  "apply_ex t log_call catch_exceptions kw w =
     (let w1 = (if log_call then emit [LogToolCall (get_name t) kw] w else w);
          r = (case apply_attr t of
                 Some (Callable c) \<Rightarrow> fn_body c kw
               | Some IsNone \<Rightarrow> Inl (Exception ''apply not defined'')
               | Some (NotCallable v d) \<Rightarrow> Inl TypeError
               | None \<Rightarrow> Inl (Exception ''apply not defined''))
      in case r of
           Inr s \<Rightarrow> (Inr s, w1)
         | Inl e \<Rightarrow>
             if catch_exceptions then (Inr (''Error executing tool: '' @ exn_message e), w1)
             else (Inl e, w1))"

text \<open>
  Modelled from the spec: the signature of \<^verbatim>\<open>Tool.apply_ex\<close>, which is not under
  \<^verbatim>\<open>src/\<close>. It is a method: its first parameter, which the call
  \<^verbatim>\<open>tool.apply_ex(...)\<close> binds to the tool, is named \<^verbatim>\<open>self\<close>; \<^verbatim>\<open>log_call\<close> and
  \<^verbatim>\<open>catch_exceptions\<close> are the parameters that the call names, and the remaining named
  arguments go to the capability's execution.
\<close>

definition apply_ex_self :: string where
  "apply_ex_self = ''self''"

text \<open>
  \<^verbatim>\<open>def execute_fn(**kwargs): return tool.apply_ex(log_call=True, catch_exceptions=True, **kwargs)\<close>

  The call passes \<^verbatim>\<open>log_call\<close> and \<^verbatim>\<open>catch_exceptions\<close> by keyword and then unpacks
  \<^verbatim>\<open>kwargs\<close>. Python raises \<^verbatim>\<open>TypeError\<close> (``got multiple values for keyword
  argument'') when the unpacked mapping repeats a keyword that the call already gives,
  and (``got multiple values for argument'') when it names the parameter that the method
  call has bound to the tool. Both happen when the call is made, before the body of
  \<^verbatim>\<open>apply_ex\<close> runs, so \<^verbatim>\<open>catch_exceptions\<close> has no effect on them.
\<close>

definition execute_fn :: "tool \<Rightarrow> kwargs \<Rightarrow> world \<Rightarrow> (exn + string) \<times> world" where
  "execute_fn t kw w =
     (if ''log_call'' \<in> set (dict_keys kw) \<or> ''catch_exceptions'' \<in> set (dict_keys kw)
      then (Inl TypeError, w)
      else if apply_ex_self \<in> set (dict_keys kw)
      then (Inl TypeError, w)
      else apply_ex t True True kw w)"

text \<open>\<^verbatim>\<open>apply_fn.__doc__\<close>: every object has one, possibly \<^verbatim>\<open>None\<close>.\<close>

fun doc_of :: "attr \<Rightarrow> string option" where
  "doc_of (Callable c) = fn_doc c"
| "doc_of IsNone = None"
| "doc_of (NotCallable v d) = d"

text \<open>
  \<^verbatim>\<open>make_tool\<close>, statement by statement. \<^verbatim>\<open>getattr(tool, "apply")\<close> has no default,
  so it raises \<^verbatim>\<open>AttributeError\<close> when the attribute is missing; the test
  \<^verbatim>\<open>apply_fn is None\<close> raises \<^verbatim>\<open>ValueError\<close>; \<^verbatim>\<open>x or ""\<close> is \<^verbatim>\<open>""\<close> when \<^verbatim>\<open>x\<close> is
  \<^verbatim>\<open>None\<close> or empty.
\<close>

definition make_tool :: "env \<Rightarrow> tool \<Rightarrow> exn + MCPTool" where
  "make_tool env t =
     (let func_name = get_name t in
      case apply_attr t of
        None \<Rightarrow> Inl AttributeError
      | Some apply_fn \<Rightarrow>
          if apply_fn = IsNone then Inl ValueError
          else
            let func_doc = (case doc_of apply_fn of None \<Rightarrow> '''' | Some d \<Rightarrow> if d = [] then '''' else d);
                is_async = False
            in case func_metadata env apply_fn of
                 Inl e \<Rightarrow> Inl e
               | Inr func_arg_metadata \<Rightarrow>
                   let parameters = arg_model_json_schema func_arg_metadata
                   in Inr \<lparr>fn = execute_fn t,
                           name = func_name,
                           description = func_doc,
                           parameters = parameters,
                           fn_metadata = func_arg_metadata,
                           is_async = is_async,
                           context_kwarg = None\<rparr>)"

section \<open>The agent registry\<close>

text \<open>
  Modelled from the spec: the constructor \<^verbatim>\<open>SerenaAgent(project_file_path,
  start_language_server)\<close> of \<^verbatim>\<open>serena.agent\<close>, which is not under \<^verbatim>\<open>src/\<close>. The spec:
  an agent construction function taking a configuration path and a ``start backend now''
  flag, exposing a mapping from capability name to capability and an attached backend
  resource; constructing a new agent in turn starts its language-analysis backend. The
  new agent and its language server are new objects.
\<close>

definition SerenaAgent :: "env \<Rightarrow> string \<Rightarrow> bool \<Rightarrow> world \<Rightarrow> ref \<times> world" where
  "SerenaAgent env path start_language_server w =
     (let ls = length (servers w);
          a = length (agents w)
      in (a, w\<lparr>servers := servers w @ [\<lparr>running = start_language_server\<rparr>],
               agents := agents w @ [\<lparr>project_file = path, tools = agent_tools env path, language_server = ls\<rparr>],
               events := events w @ AgentInit path a # (if start_language_server then [LanguageServerStart ls] else [])\<rparr>))"

text \<open>\<^verbatim>\<open>_get_create_serena_agent\<close>.\<close>

definition get_create_serena_agent :: "env \<Rightarrow> string \<Rightarrow> world \<Rightarrow> (exn + ref) \<times> world" where
  "get_create_serena_agent env project_file_path w =
     (let w' =
        (if project_file_path \<notin> set (dict_keys (registry w)) then
           let w1 = emit [LogInfo (''Creating new SerenaAgent for project file: '' @ project_file_path)] w;
               (a, w2) = SerenaAgent env project_file_path True w1
           in w2\<lparr>registry := setitem project_file_path a (registry w2)\<rparr>
         else emit [LogInfo (''Reusing existing SerenaAgent for project file: '' @ project_file_path)] w)
      in (getitem (registry w') project_file_path, w'))"

text \<open>A sequence of lookups, one after the other; the results in the order of the calls.\<close>

fun lookups :: "env \<Rightarrow> string list \<Rightarrow> world \<Rightarrow> (exn + ref) list \<times> world" where
  "lookups env [] w = ([], w)"
| "lookups env (p # ps) w =
     (case get_create_serena_agent env p w of
        (r, w1) \<Rightarrow> (case lookups env ps w1 of (rs, w2) \<Rightarrow> (r # rs, w2)))"

section \<open>The server and its lifespan\<close>

text \<open>
  \<^verbatim>\<open>agent.language_server.stop()\<close>: the call is an effect whether or not it raises; a
  language server whose \<^verbatim>\<open>stop()\<close> returns is no longer running.
\<close>

definition language_server_stop :: "env \<Rightarrow> ref \<Rightarrow> world \<Rightarrow> (exn + unit) \<times> world" where
  "language_server_stop env a w =
     (case deref (agents w) a of
        None \<Rightarrow> (Inl AttributeError, w)
      | Some ag \<Rightarrow>
          let ls = language_server ag;
              w1 = emit [LanguageServerStop ls] w
          in case stop_raises env ls of
               Some e \<Rightarrow> (Inl e, w1)
             | None \<Rightarrow> (Inr (), w1\<lparr>servers := list_update (servers w1) ls \<lparr>running = False\<rparr>\<rparr>))"

text \<open>
  The loop \<^verbatim>\<open>for agent in _SERENA_AGENT_REGISTRY.values(): agent.language_server.stop()\<close>:
  an exception leaves the loop.
\<close>

fun stop_all :: "env \<Rightarrow> ref list \<Rightarrow> world \<Rightarrow> (exn + unit) \<times> world" where
  "stop_all env [] w = (Inr (), w)"
| "stop_all env (a # as) w =
     (case language_server_stop env a w of
        (Inl e, w1) \<Rightarrow> (Inl e, w1)
      | (Inr u, w1) \<Rightarrow> stop_all env as w1)"

text \<open>
  \<^verbatim>\<open>server_lifespan\<close>: \<^verbatim>\<open>try: yield finally: ...\<close>. \<open>body\<close> is what runs while the
  context is open (the server's run loop); it may change the world and may end with an
  exception. The \<^verbatim>\<open>finally\<close> block reads the registry when it runs. An exception of the
  \<^verbatim>\<open>finally\<close> block replaces the outcome of the body.
\<close>

definition server_lifespan ::
  "env \<Rightarrow> (world \<Rightarrow> (exn + unit) \<times> world) \<Rightarrow> world \<Rightarrow> (exn + unit) \<times> world" where
  "server_lifespan env body w =
     (case body w of
        (r, w1) \<Rightarrow>
          (case stop_all env (dict_values (registry w1)) w1 of
             (Inl e, w2) \<Rightarrow> (Inl e, w2)
           | (Inr u, w2) \<Rightarrow> (r, w2)))"

record FastMCP =
  tool_manager_tools :: "(string \<times> MCPTool) list"

text \<open>
  The loop \<^verbatim>\<open>for tool in agent.tools.values(): mcp._tool_manager._tools[tool.get_name()] = make_tool(tool)\<close>.
\<close>

fun bind_tools :: "env \<Rightarrow> tool list \<Rightarrow> (string \<times> MCPTool) list \<Rightarrow> exn + (string \<times> MCPTool) list" where
  "bind_tools env [] tbl = Inr tbl"
| "bind_tools env (t # ts) tbl =
     (case make_tool env t of
        Inl e \<Rightarrow> Inl e
      | Inr d \<Rightarrow> bind_tools env ts (setitem (get_name t) d tbl))"

definition usage :: string where
  "usage = CHR 0x0A # ''Usage: mcp_server <.yml project file>'' @ [CHR 0x0A]"

text \<open>
  \<^verbatim>\<open>create_mcp_server\<close>; \<open>sys_argv\<close> is \<^verbatim>\<open>sys.argv\<close>, the program name first.
  \<^verbatim>\<open>sys.exit(1)\<close> raises \<^verbatim>\<open>SystemExit(1)\<close>. A new \<^verbatim>\<open>FastMCP\<close> has no tools.
\<close>

definition create_mcp_server :: "env \<Rightarrow> string list \<Rightarrow> world \<Rightarrow> (exn + FastMCP) \<times> world" where
  "create_mcp_server env sys_argv w =
     (let argv = drop 1 sys_argv in
      if length argv \<noteq> 1 then (Inl (SystemExit 1), emit [Stderr usage] w)
      else
        let project_file_path = argv ! 0 in
        case get_create_serena_agent env project_file_path w of
          (Inl e, w1) \<Rightarrow> (Inl e, w1)
        | (Inr a, w1) \<Rightarrow>
            (case deref (agents w1) a of
               None \<Rightarrow> (Inl AttributeError, w1)
             | Some ag \<Rightarrow>
                 (case bind_tools env (dict_values (tools ag)) [] of
                    Inl e \<Rightarrow> (Inl e, w1)
                  | Inr tbl \<Rightarrow> (Inr \<lparr>tool_manager_tools = tbl\<rparr>, w1))))"

text \<open>
  \<^verbatim>\<open>start_mcp_server\<close>: \<^verbatim>\<open>create_mcp_server().run()\<close>. The run loop of the MCP library
  opens the lifespan context around serving; \<open>serve\<close> is what the loop does with the
  server while it runs.
\<close>

definition start_mcp_server ::
  "env \<Rightarrow> string list \<Rightarrow> (FastMCP \<Rightarrow> world \<Rightarrow> (exn + unit) \<times> world) \<Rightarrow> world \<Rightarrow> (exn + unit) \<times> world" where
  "start_mcp_server env sys_argv serve w =
     (case create_mcp_server env sys_argv w of
        (Inl e, w1) \<Rightarrow> (Inl e, w1)
      | (Inr mcp, w1) \<Rightarrow> server_lifespan env (serve mcp) w1)"

text \<open>The exit status of the process: that of \<^verbatim>\<open>SystemExit\<close>, 1 for any other exception.\<close>

fun exit_status :: "exn + unit \<Rightarrow> nat" where
  "exit_status (Inr u) = 0"
| "exit_status (Inl (SystemExit n)) = n"
| "exit_status (Inl e) = 1"



section \<open>Notions of the properties\<close>

text \<open>
  A named-argument mapping is well typed for a signature when it gives every parameter,
  and nothing else, one value of the parameter's type.
\<close>

definition matches_signature :: "(string \<times> pytype) list \<Rightarrow> kwargs \<Rightarrow> bool" where
  "matches_signature params kw =
     (distinct (dict_keys kw) \<and> set (map (\<lambda>(k, v). (k, type_of v)) kw) = set params)"

text \<open>The construction of an agent for the project file \<open>p\<close>, among the effects.\<close>

definition is_init :: "string \<Rightarrow> event \<Rightarrow> bool" where
  "is_init p e = (case e of AgentInit q a \<Rightarrow> q = p | _ \<Rightarrow> False)"

text \<open>
  The language server of an agent, and the language servers of the registered agents in
  the order of the registry.
\<close>

definition backend_of :: "world \<Rightarrow> ref \<Rightarrow> ref option" where
  "backend_of w a = map_option language_server (deref (agents w) a)"

definition registered_backends :: "world \<Rightarrow> ref list" where
  "registered_backends w = List.map_filter (backend_of w) (dict_values (registry w))"

text \<open>
  What holds of every world that the lookups build from the initial one: the registry has
  one entry per key and no agent twice, no two agents share a language server, and every
  registered agent was constructed for its key and had its language server started.
\<close>

definition consistent :: "world \<Rightarrow> bool" where
  "consistent w \<longleftrightarrow>
     distinct (dict_keys (registry w)) \<and>
     distinct (dict_values (registry w)) \<and>
     distinct (map language_server (agents w)) \<and>
     list_all (\<lambda>ag. language_server ag < length (servers w)) (agents w) \<and>
     list_all (\<lambda>(p, a). case deref (agents w) a of
                           None \<Rightarrow> False
                         | Some ag \<Rightarrow> project_file ag = p
                             \<and> AgentInit p a \<in> set (events w)
                             \<and> LanguageServerStart (language_server ag) \<in> set (events w))
              (registry w)"

text \<open>\<^verbatim>\<open>stop()\<close> of the agent's language server returns.\<close>

definition stops_cleanly :: "env \<Rightarrow> world \<Rightarrow> ref \<Rightarrow> bool" where
  "stops_cleanly env w a = (case backend_of w a of None \<Rightarrow> False | Some l \<Rightarrow> stop_raises env l = None)"


definition built :: "env \<Rightarrow> tool \<Rightarrow> MCPTool option" where
  "built env t = (case make_tool env t of Inl e \<Rightarrow> None | Inr d \<Rightarrow> Some d)"

section \<open>Concrete collaborators and inputs\<close>

text \<open>
  An environment in which the schema derivation accepts every callable and rejects
  everything else, agents have no tools and every language server stops; one in which
  the language server 1 fails to stop; and one in which the schema derivation also
  rejects a signature that has a parameter whose name starts with an underscore, as the
  MCP library's \<^verbatim>\<open>func_metadata\<close> does.
\<close>

definition env0 :: env where
  "env0 = \<lparr>agent_tools = (\<lambda>p. []),
           func_metadata = (\<lambda>a. case a of
                                  Callable c \<Rightarrow> Inr \<lparr>arg_model_json_schema = JObject []\<rparr>
                                | IsNone \<Rightarrow> Inl TypeError
                                | NotCallable v d \<Rightarrow> Inl TypeError),
           stop_raises = (\<lambda>l. None)\<rparr>"

definition env_fault :: env where
  "env_fault = env0\<lparr>stop_raises := (\<lambda>l. if l = 1 then Some (Exception ''stop failed'') else None)\<rparr>"

definition env_strict :: env where
  "env_strict = env0\<lparr>func_metadata := (\<lambda>a. case a of
        Callable c \<Rightarrow>
          if list_ex (\<lambda>(n, T). take 1 n = ''_'') (fn_params c)
          then Inl (Exception ''InvalidSignature'')
          else Inr \<lparr>arg_model_json_schema = JObject []\<rparr>
      | IsNone \<Rightarrow> Inl TypeError
      | NotCallable v d \<Rightarrow> Inl TypeError)\<rparr>"

text \<open>
  Tools: one whose \<^verbatim>\<open>apply\<close> has a parameter called \<^verbatim>\<open>log_call\<close> and no docstring,
  one whose \<^verbatim>\<open>apply\<close> always raises, one that answers with its docstring, one whose
  \<^verbatim>\<open>apply\<close> has a parameter called \<^verbatim>\<open>_x\<close>, and one with a given \<^verbatim>\<open>apply\<close>
  attribute.
\<close>

definition flag_tool :: tool where
  "flag_tool = \<lparr>get_name = ''flag'',
     apply_attr = Some (Callable \<lparr>fn_doc = None, fn_params = [(''log_call'', TBool)],
                                 fn_body = (\<lambda>kw. Inr ''done'')\<rparr>)\<rparr>"

definition failing_tool :: tool where
  "failing_tool = \<lparr>get_name = ''fail'',
     apply_attr = Some (Callable \<lparr>fn_doc = Some ''Always fails.'', fn_params = [(''path'', TStr)],
                                 fn_body = (\<lambda>kw. Inl (Exception ''boom''))\<rparr>)\<rparr>"


definition private_tool :: tool where
  "private_tool = \<lparr>get_name = ''private'',
     apply_attr = Some (Callable \<lparr>fn_doc = None, fn_params = [(''_x'', TInt)],
                                 fn_body = (\<lambda>kw. Inr ''done'')\<rparr>)\<rparr>"

definition bare_tool :: "attr option \<Rightarrow> tool" where
  "bare_tool a = \<lparr>get_name = ''bare'', apply_attr = a\<rparr>"

text \<open>The worlds after the first lookups of \<^verbatim>\<open>a.yml\<close>, \<^verbatim>\<open>b.yml\<close> and \<^verbatim>\<open>c.yml\<close>.\<close>

definition world_a :: world where
  "world_a = snd (get_create_serena_agent env0 ''a.yml'' initial_world)"

definition world_ab :: world where
  "world_ab = snd (get_create_serena_agent env0 ''b.yml'' world_a)"

definition world_abc :: world where
  "world_abc = snd (get_create_serena_agent env0 ''c.yml'' world_ab)"

text \<open>
  Two run loops: one that looks project files up while it serves and then ends, and one
  that ends at once.
\<close>

definition register_late :: "env \<Rightarrow> string list \<Rightarrow> world \<Rightarrow> (exn + unit) \<times> world" where
  "register_late env ps w = (Inr (), snd (lookups env ps w))"

definition serve_quietly :: "world \<Rightarrow> (exn + unit) \<times> world" where
  "serve_quietly w = (Inr (), w)"

section \<open>Dictionaries\<close>

lemma setitem_absent: "k \<notin> set (dict_keys d) \<Longrightarrow> setitem k v d = d @ [(k, v)]"
  by (induction d) (auto simp: dict_keys_def)



lemma in_keys_iff: "k \<in> set (dict_keys d) \<longleftrightarrow> map_of d k \<noteq> None"
  by (simp add: dict_keys_def map_of_eq_None_iff)




lemma count_list_distinct: "distinct xs \<Longrightarrow> x \<in> set xs \<Longrightarrow> count_list xs x = 1"
  by (induction xs) auto

section \<open>The descriptor builder: properties\<close>

text \<open>
  C7. For a tool whose \<^verbatim>\<open>apply\<close> is callable (and whose schema the collaborator
  derives), the descriptor has the name that \<^verbatim>\<open>get_name()\<close> returns, unchanged, and
  as description the docstring of \<^verbatim>\<open>apply\<close>, or the empty string when there is none.
  The other fields are the thunk, the derived schema and metadata, and constants.
\<close>

theorem make_tool_name_description:
  assumes "apply_attr t = Some (Callable c)" and "func_metadata env (Callable c) = Inr m"
  shows "make_tool env t =
           Inr \<lparr>fn = execute_fn t,
                name = get_name t,
                description = (case fn_doc c of None \<Rightarrow> '''' | Some d \<Rightarrow> d),
                parameters = arg_model_json_schema m,
                fn_metadata = m,
                is_async = False,
                context_kwarg = None\<rparr>"
  using assms by (simp add: make_tool_def split: option.splits)

theorem make_tool_name_description_witness:
  "make_tool env0 failing_tool =
     Inr \<lparr>fn = execute_fn failing_tool, name = ''fail'', description = ''Always fails.'',
          parameters = JObject [], fn_metadata = \<lparr>arg_model_json_schema = JObject []\<rparr>,
          is_async = False, context_kwarg = None\<rparr>
   \<and> make_tool env0 flag_tool =
     Inr \<lparr>fn = execute_fn flag_tool, name = ''flag'', description = '''',
          parameters = JObject [], fn_metadata = \<lparr>arg_model_json_schema = JObject []\<rparr>,
          is_async = False, context_kwarg = None\<rparr>"
  using make_tool_name_description
          [of failing_tool "\<lparr>fn_doc = Some ''Always fails.'', fn_params = [(''path'', TStr)],
                             fn_body = (\<lambda>kw. Inl (Exception ''boom''))\<rparr>"
              env0 "\<lparr>arg_model_json_schema = JObject []\<rparr>"]
        make_tool_name_description
          [of flag_tool "\<lparr>fn_doc = None, fn_params = [(''log_call'', TBool)],
                          fn_body = (\<lambda>kw. Inr ''done'')\<rparr>"
              env0 "\<lparr>arg_model_json_schema = JObject []\<rparr>"]
  by (simp add: failing_tool_def flag_tool_def env0_def)

text \<open>
  C6, as amended. \<open>make_tool\<close> fails exactly when the tool has no \<^verbatim>\<open>apply\<close> attribute,
  when the attribute is \<^verbatim>\<open>None\<close> (the builder's own \<^verbatim>\<open>ValueError\<close>), or when the
  schema derivation raises for the object found under \<^verbatim>\<open>apply\<close>, whose exception the
  builder lets through unchanged. For a callable \<^verbatim>\<open>apply\<close> whose schema is derived it
  succeeds, and the descriptor only holds the thunk: the builder never calls
  \<^verbatim>\<open>apply\<close>, so nothing that a call would do can make the construction fail.
\<close>

theorem make_tool_fails_exactly_when:
  "((\<exists>e. make_tool env t = Inl e) \<longleftrightarrow>
      (apply_attr t = None \<or> apply_attr t = Some IsNone
       \<or> (\<exists>a e. apply_attr t = Some a \<and> func_metadata env a = Inl e)))
   \<and> (apply_attr t = Some IsNone \<longrightarrow> make_tool env t = Inl ValueError)
   \<and> (\<forall>a e. apply_attr t = Some a \<longrightarrow> a \<noteq> IsNone \<longrightarrow> func_metadata env a = Inl e \<longrightarrow>
          make_tool env t = Inl e)
   \<and> (\<forall>c m. apply_attr t = Some (Callable c) \<longrightarrow> func_metadata env (Callable c) = Inr m \<longrightarrow>
          (\<exists>d. make_tool env t = Inr d \<and> fn d = execute_fn t))"
proof -
  have none: "make_tool env t = Inl ValueError" if "apply_attr t = Some IsNone"
    using that by (simp add: make_tool_def)
  have other: "make_tool env t = Inl e"
    if "apply_attr t = Some a" "a \<noteq> IsNone" "func_metadata env a = Inl e" for a e
    using that by (simp add: make_tool_def Let_def)
  have built: "\<exists>d. make_tool env t = Inr d \<and> fn d = execute_fn t"
    if "apply_attr t = Some a" "a \<noteq> IsNone" "func_metadata env a = Inr m" for a m
    using that by (simp add: make_tool_def Let_def)
  have iff: "(\<exists>e. make_tool env t = Inl e) \<longleftrightarrow>
      (apply_attr t = None \<or> apply_attr t = Some IsNone
       \<or> (\<exists>a e. apply_attr t = Some a \<and> func_metadata env a = Inl e))"
  proof (cases "apply_attr t")
    case None
    then show ?thesis by (simp add: make_tool_def)
  next
    case (Some a)
    show ?thesis
    proof (cases "a = IsNone")
      case True
      with Some none show ?thesis by simp
    next
      case False
      show ?thesis
      proof (cases "func_metadata env a")
        case (Inl e)
        with Some False other [of a e] show ?thesis by auto
      next
        case (Inr m)
        with Some False built [of a m] show ?thesis by auto
      qed
    qed
  qed
  have callable: "\<exists>d. make_tool env t = Inr d \<and> fn d = execute_fn t"
    if "apply_attr t = Some (Callable c)" "func_metadata env (Callable c) = Inr m" for c m
    using that by (intro built [of "Callable c" m]) simp_all
  from iff none other callable show ?thesis by blast
qed

theorem make_tool_fails_exactly_when_witness:
  "isl (make_tool env0 (bare_tool None))
   \<and> make_tool env0 (bare_tool (Some IsNone)) = Inl ValueError
   \<and> make_tool env0 (bare_tool (Some (NotCallable (PInt 5) (Some ''int'')))) = Inl TypeError
   \<and> make_tool env_strict private_tool = Inl (Exception ''InvalidSignature'')
   \<and> \<not> isl (make_tool env0 failing_tool)"
proof -
  have e1: "func_metadata env0 (NotCallable (PInt 5) (Some ''int'')) = Inl TypeError"
    by (simp add: env0_def)
  have e2: "func_metadata env_strict
              (Callable \<lparr>fn_doc = None, fn_params = [(''_x'', TInt)], fn_body = (\<lambda>kw. Inr ''done'')\<rparr>)
            = Inl (Exception ''InvalidSignature'')"
    by (simp add: env_strict_def env0_def)
  have e3: "func_metadata env0
              (Callable \<lparr>fn_doc = Some ''Always fails.'', fn_params = [(''path'', TStr)],
                         fn_body = (\<lambda>kw. Inl (Exception ''boom''))\<rparr>)
            = Inr \<lparr>arg_model_json_schema = JObject []\<rparr>"
    by (simp add: env0_def)
  from make_tool_fails_exactly_when [of env0 "bare_tool None"]
       make_tool_fails_exactly_when [of env0 "bare_tool (Some IsNone)"]
       make_tool_fails_exactly_when [of env0 "bare_tool (Some (NotCallable (PInt 5) (Some ''int'')))"]
       make_tool_fails_exactly_when [of env_strict private_tool]
       make_tool_fails_exactly_when [of env0 failing_tool]
       e1 e2 e3
  show ?thesis
    by (auto simp: bare_tool_def failing_tool_def private_tool_def)
qed

text \<open>
  C6 as stated fails: \<open>private_tool\<close> has a callable \<^verbatim>\<open>apply\<close>, and the construction
  of its descriptor fails with the exception of the schema derivation.
\<close>

theorem make_tool_rejects_callable_counterexample:
  "apply_attr private_tool
     = Some (Callable \<lparr>fn_doc = None, fn_params = [(''_x'', TInt)], fn_body = (\<lambda>kw. Inr ''done'')\<rparr>)
   \<and> make_tool env_strict private_tool = Inl (Exception ''InvalidSignature'')"
  by (simp add: private_tool_def make_tool_def env_strict_def env0_def)

text \<open>
  C2. The thunk is to return a string for every well-typed mapping. At the tool
  \<open>flag_tool\<close>, whose callable \<^verbatim>\<open>apply\<close> has the one parameter \<^verbatim>\<open>log_call\<close>, and the
  mapping \<^verbatim>\<open>{"log_call": False}\<close>, which is well typed for it, the descriptor is built
  and its thunk raises \<^verbatim>\<open>TypeError\<close> instead.
\<close>

theorem execute_fn_raises_at_log_call:
  "matches_signature [(''log_call'', TBool)] [(''log_call'', PBool False)]
   \<and> apply_attr flag_tool
       = Some (Callable \<lparr>fn_doc = None, fn_params = [(''log_call'', TBool)],
                          fn_body = (\<lambda>kw. Inr ''done'')\<rparr>)
   \<and> make_tool env0 flag_tool =
       Inr \<lparr>fn = execute_fn flag_tool, name = ''flag'', description = '''',
            parameters = JObject [], fn_metadata = \<lparr>arg_model_json_schema = JObject []\<rparr>,
            is_async = False, context_kwarg = None\<rparr>
   \<and> execute_fn flag_tool [(''log_call'', PBool False)] initial_world = (Inl TypeError, initial_world)"
  by (simp add: matches_signature_def dict_keys_def make_tool_def env0_def flag_tool_def execute_fn_def)

text \<open>
  The thunk of a built descriptor raises \<^verbatim>\<open>TypeError\<close> on every mapping that uses one
  of the names \<^verbatim>\<open>log_call\<close>, \<^verbatim>\<open>catch_exceptions\<close> and \<^verbatim>\<open>self\<close>. On every other
  mapping, for a callable \<^verbatim>\<open>apply\<close>, it logs the call and returns a string: the
  result of \<^verbatim>\<open>apply\<close>, or the description of the exception that \<^verbatim>\<open>apply\<close> raised.
\<close>

lemma execute_fn_raises_on_reserved_name:
  assumes "make_tool env t = Inr d"
      and "''log_call'' \<in> set (dict_keys kw) \<or> ''catch_exceptions'' \<in> set (dict_keys kw)
           \<or> ''self'' \<in> set (dict_keys kw)"
  shows "fn d kw w = (Inl TypeError, w)"
proof -
  from assms(1) have "fn d = execute_fn t"
    by (auto simp: make_tool_def Let_def split: option.splits if_splits sum.splits)
  with assms(2) show ?thesis
    by (auto simp: execute_fn_def apply_ex_self_def)
qed

lemma execute_fn_returns_string:
  assumes "apply_attr t = Some (Callable c)"
      and "make_tool env t = Inr d"
      and "''log_call'' \<notin> set (dict_keys kw)"
      and "''catch_exceptions'' \<notin> set (dict_keys kw)"
      and "''self'' \<notin> set (dict_keys kw)"
  shows "fn d kw w =
           (Inr (case fn_body c kw of Inr s \<Rightarrow> s | Inl e \<Rightarrow> ''Error executing tool: '' @ exn_message e),
            emit [LogToolCall (get_name t) kw] w)"
proof -
  from assms(1,2) have "fn d = execute_fn t"
    by (auto simp: make_tool_def Let_def split: sum.splits)
  with assms(1,3,4,5) show ?thesis
    by (simp add: execute_fn_def apply_ex_self_def apply_ex_def Let_def split: sum.splits)
qed

section \<open>The agent registry: properties\<close>

lemma get_create_new:
  assumes "p \<notin> set (dict_keys (registry w))"
  shows "get_create_serena_agent env p w =
           (Inr (length (agents w)),
            w\<lparr>registry := registry w @ [(p, length (agents w))],
              agents := agents w @ [\<lparr>project_file = p, tools = agent_tools env p,
                                     language_server = length (servers w)\<rparr>],
              servers := servers w @ [\<lparr>running = True\<rparr>],
              events := events w @ [LogInfo (''Creating new SerenaAgent for project file: '' @ p),
                                    AgentInit p (length (agents w)),
                                    LanguageServerStart (length (servers w))]\<rparr>)"
proof -
  have "map_of (registry w) p = None"
    using assms by (simp add: in_keys_iff)
  then show ?thesis
    using assms
    by (simp add: get_create_serena_agent_def SerenaAgent_def emit_def Let_def
        setitem_absent getitem_def map_add_def)
qed

lemma get_create_old:
  assumes "map_of (registry w) p = Some a"
  shows "get_create_serena_agent env p w =
           (Inr a, emit [LogInfo (''Reusing existing SerenaAgent for project file: '' @ p)] w)"
proof -
  have "p \<in> set (dict_keys (registry w))"
    using assms by (simp add: in_keys_iff)
  then show ?thesis
    using assms by (simp add: get_create_serena_agent_def emit_def getitem_def)
qed

lemma get_create_registers:
  assumes "get_create_serena_agent env p w = (r, w1)"
  shows "\<exists>a. r = Inr a \<and> map_of (registry w1) p = Some a"
proof (cases "p \<in> set (dict_keys (registry w))")
  case True
  then obtain a where a: "map_of (registry w) p = Some a"
    by (auto simp: in_keys_iff)
  with assms show ?thesis
    by (auto simp: get_create_old emit_def)
next
  case False
  with assms show ?thesis
    by (auto simp: get_create_new in_keys_iff map_add_def)
qed

lemma get_create_keeps:
  assumes "map_of (registry w) p = Some a" and "get_create_serena_agent env q w = (r, w1)"
  shows "map_of (registry w1) p = Some a"
proof (cases "q \<in> set (dict_keys (registry w))")
  case True
  then obtain b where "map_of (registry w) q = Some b"
    by (auto simp: in_keys_iff)
  with assms show ?thesis
    by (auto simp: get_create_old emit_def)
next
  case False
  with assms show ?thesis
    by (auto simp: get_create_new in_keys_iff map_add_def)
qed

lemma get_create_events:
  assumes "get_create_serena_agent env q w = (r, w1)"
  shows "\<exists>es. events w1 = events w @ es \<and>
           length (filter (is_init p) es) = (if p = q \<and> p \<notin> set (dict_keys (registry w)) then 1 else 0)"
proof (cases "q \<in> set (dict_keys (registry w))")
  case True
  then obtain b where "map_of (registry w) q = Some b"
    by (auto simp: in_keys_iff)
  with assms True show ?thesis
    by (auto simp: get_create_old emit_def is_init_def)
next
  case False
  with assms show ?thesis
    by (auto simp: get_create_new is_init_def)
qed

lemma lookups_keeps:
  assumes "map_of (registry w) p = Some a" and "lookups env qs w = (rs, w1)"
  shows "map_of (registry w1) p = Some a"
  using assms
proof (induction qs arbitrary: w rs w1)
  case Nil
  then show ?case by simp
next
  case (Cons q qs)
  obtain r w' where step: "get_create_serena_agent env q w = (r, w')"
    by (cases "get_create_serena_agent env q w")
  obtain rs' w'' where rest: "lookups env qs w' = (rs', w'')"
    by (cases "lookups env qs w'")
  from Cons.prems(2) step rest have "w1 = w''" by simp
  moreover have "map_of (registry w') p = Some a"
    using get_create_keeps [OF Cons.prems(1) step] .
  ultimately show ?case
    using Cons.IH rest by simp
qed

lemma lookups_events:
  assumes "map_of (registry w) p = Some a" and "lookups env qs w = (rs, w1)"
  shows "\<exists>es. events w1 = events w @ es \<and> filter (is_init p) es = []"
  using assms
proof (induction qs arbitrary: w rs w1)
  case Nil
  then show ?case by simp
next
  case (Cons q qs)
  obtain r w' where step: "get_create_serena_agent env q w = (r, w')"
    by (cases "get_create_serena_agent env q w")
  obtain rs' w'' where rest: "lookups env qs w' = (rs', w'')"
    by (cases "lookups env qs w'")
  from Cons.prems(2) step rest have w1: "w1 = w''" by simp
  have kept: "map_of (registry w') p = Some a"
    using get_create_keeps [OF Cons.prems(1) step] .
  have "p \<in> set (dict_keys (registry w))"
    using Cons.prems(1) by (simp add: in_keys_iff)
  with get_create_events [OF step, of p]
  obtain es1 where es1: "events w' = events w @ es1" "filter (is_init p) es1 = []"
    by auto
  from Cons.IH [OF kept rest]
  obtain es2 where es2: "events w'' = events w' @ es2" "filter (is_init p) es2 = []"
    by auto
  from es1 es2 w1 show ?case by simp
qed

text \<open>
  C1. Look \<open>p\<close> up, then any project files \<open>qs\<close>, then \<open>p\<close> again. Both lookups of
  \<open>p\<close> return the same reference, which the registry holds under \<open>p\<close>. When \<open>p\<close>
  was not registered, the first lookup constructs a new agent, with a new running
  language server, and appends it to the registry. The last lookup only logs that it
  reuses the agent. In the whole run an agent is constructed for \<open>p\<close> once when \<open>p\<close>
  was not registered, and never when it was.
\<close>

theorem get_create_at_most_one_agent:
  assumes "get_create_serena_agent env p w = (r, w1)"
      and "lookups env qs w1 = (rs, w2)"
      and "get_create_serena_agent env p w2 = (r', w3)"
  shows "\<exists>a. r = Inr a \<and> r' = Inr a
           \<and> map_of (registry w3) p = Some a
           \<and> (p \<notin> set (dict_keys (registry w)) \<longrightarrow>
                a = length (agents w)
                \<and> registry w1 = registry w @ [(p, a)]
                \<and> agents w1 = agents w @ [\<lparr>project_file = p, tools = agent_tools env p,
                                             language_server = length (servers w)\<rparr>]
                \<and> servers w1 = servers w @ [\<lparr>running = True\<rparr>])
           \<and> w3 = emit [LogInfo (''Reusing existing SerenaAgent for project file: '' @ p)] w2
           \<and> length (filter (is_init p) (drop (length (events w)) (events w3)))
               = (if p \<in> set (dict_keys (registry w)) then 0 else 1)"
proof -
  from get_create_registers [OF assms(1)]
  obtain a where a: "r = Inr a" "map_of (registry w1) p = Some a" by blast
  have a2: "map_of (registry w2) p = Some a"
    using lookups_keeps [OF a(2) assms(2)] .
  have third: "r' = Inr a"
      "w3 = emit [LogInfo (''Reusing existing SerenaAgent for project file: '' @ p)] w2"
    using assms(3) by (simp_all add: get_create_old [OF a2])
  have a3: "map_of (registry w3) p = Some a"
    using third(2) a2 by (simp add: emit_def)
  have new: "p \<notin> set (dict_keys (registry w)) \<longrightarrow>
                a = length (agents w)
                \<and> registry w1 = registry w @ [(p, a)]
                \<and> agents w1 = agents w @ [\<lparr>project_file = p, tools = agent_tools env p,
                                             language_server = length (servers w)\<rparr>]
                \<and> servers w1 = servers w @ [\<lparr>running = True\<rparr>]"
    using assms(1) a(1) by (auto simp: get_create_new)
  from get_create_events [OF assms(1), of p]
  obtain es1 where es1: "events w1 = events w @ es1"
      "length (filter (is_init p) es1) = (if p \<notin> set (dict_keys (registry w)) then 1 else 0)"
    by auto
  from lookups_events [OF a(2) assms(2)]
  obtain es2 where es2: "events w2 = events w1 @ es2" "filter (is_init p) es2 = []"
    by blast
  have "events w3 = events w @ es1 @ es2 @ [LogInfo (''Reusing existing SerenaAgent for project file: '' @ p)]"
    using third(2) es1(1) es2(1) by (simp add: emit_def)
  then have count: "length (filter (is_init p) (drop (length (events w)) (events w3)))
               = (if p \<in> set (dict_keys (registry w)) then 0 else 1)"
    using es1(2) es2(2) by (simp add: is_init_def)
  from a(1) third a3 new count show ?thesis by blast
qed

text \<open>The worlds \<open>world_a\<close>, \<open>world_ab\<close> and \<open>world_abc\<close>, written out.\<close>

lemma world_a_eq:
  "world_a = \<lparr>registry = [(''a.yml'', 0)],
              agents = [\<lparr>project_file = ''a.yml'', tools = [], language_server = 0\<rparr>],
              servers = [\<lparr>running = True\<rparr>],
              events = [LogInfo ''Creating new SerenaAgent for project file: a.yml'',
                        AgentInit ''a.yml'' 0, LanguageServerStart 0]\<rparr>"
  by (simp add: world_a_def get_create_serena_agent_def SerenaAgent_def emit_def
      initial_world_def dict_keys_def env0_def)

lemma world_ab_eq:
  "world_ab = \<lparr>registry = [(''a.yml'', 0), (''b.yml'', 1)],
               agents = [\<lparr>project_file = ''a.yml'', tools = [], language_server = 0\<rparr>,
                         \<lparr>project_file = ''b.yml'', tools = [], language_server = 1\<rparr>],
               servers = [\<lparr>running = True\<rparr>, \<lparr>running = True\<rparr>],
               events = [LogInfo ''Creating new SerenaAgent for project file: a.yml'',
                         AgentInit ''a.yml'' 0, LanguageServerStart 0,
                         LogInfo ''Creating new SerenaAgent for project file: b.yml'',
                         AgentInit ''b.yml'' 1, LanguageServerStart 1]\<rparr>"
  by (simp add: world_ab_def world_a_eq get_create_serena_agent_def SerenaAgent_def emit_def
      dict_keys_def env0_def)

lemma world_abc_eq:
  "world_abc = \<lparr>registry = [(''a.yml'', 0), (''b.yml'', 1), (''c.yml'', 2)],
               agents = [\<lparr>project_file = ''a.yml'', tools = [], language_server = 0\<rparr>,
                         \<lparr>project_file = ''b.yml'', tools = [], language_server = 1\<rparr>,
                         \<lparr>project_file = ''c.yml'', tools = [], language_server = 2\<rparr>],
               servers = [\<lparr>running = True\<rparr>, \<lparr>running = True\<rparr>, \<lparr>running = True\<rparr>],
               events = [LogInfo ''Creating new SerenaAgent for project file: a.yml'',
                         AgentInit ''a.yml'' 0, LanguageServerStart 0,
                         LogInfo ''Creating new SerenaAgent for project file: b.yml'',
                         AgentInit ''b.yml'' 1, LanguageServerStart 1,
                         LogInfo ''Creating new SerenaAgent for project file: c.yml'',
                         AgentInit ''c.yml'' 2, LanguageServerStart 2]\<rparr>"
  by (simp add: world_abc_def world_ab_eq get_create_serena_agent_def SerenaAgent_def emit_def
      dict_keys_def env0_def)

theorem get_create_at_most_one_agent_witness:
  "get_create_serena_agent env0 ''a.yml'' initial_world = (Inr 0, world_a)
   \<and> lookups env0 [''b.yml''] world_a = ([Inr 1], world_ab)
   \<and> get_create_serena_agent env0 ''a.yml'' world_ab
       = (Inr 0, emit [LogInfo ''Reusing existing SerenaAgent for project file: a.yml''] world_ab)
   \<and> length (filter (is_init ''a.yml'')
        (events (emit [LogInfo ''Reusing existing SerenaAgent for project file: a.yml''] world_ab))) = 1"
proof -
  have h1: "get_create_serena_agent env0 ''a.yml'' initial_world = (Inr 0, world_a)"
    by (simp add: world_a_eq get_create_serena_agent_def SerenaAgent_def emit_def
        initial_world_def dict_keys_def env0_def getitem_def)
  have h2: "lookups env0 [''b.yml''] world_a = ([Inr 1], world_ab)"
    by (simp add: world_ab_eq world_a_eq get_create_serena_agent_def SerenaAgent_def emit_def
        dict_keys_def env0_def getitem_def)
  have h3: "get_create_serena_agent env0 ''a.yml'' world_ab
       = (Inr 0, emit [LogInfo ''Reusing existing SerenaAgent for project file: a.yml''] world_ab)"
    by (simp add: world_ab_eq get_create_serena_agent_def emit_def dict_keys_def getitem_def)
  from get_create_at_most_one_agent [OF h1 h2 h3] h1 h2 h3 show ?thesis
    by (simp add: initial_world_def dict_keys_def)
qed

text \<open>The initial world is consistent, and lookups keep worlds consistent.\<close>

lemma consistent_initial: "consistent initial_world"
  by (simp add: consistent_def initial_world_def dict_keys_def dict_values_def)

lemma consistent_emit: "consistent w \<Longrightarrow> consistent (emit es w)"
  by (auto simp: consistent_def emit_def list_all_iff split: option.splits)

lemma consistent_get_create:
  assumes "consistent w" and "get_create_serena_agent env p w = (r, w1)"
  shows "consistent w1"
proof (cases "p \<in> set (dict_keys (registry w))")
  case True
  then obtain b where "map_of (registry w) p = Some b"
    by (auto simp: in_keys_iff)
  with assms show ?thesis
    by (auto simp: get_create_old consistent_emit)
next
  case False
  have bound: "\<And>q a. (q, a) \<in> set (registry w) \<Longrightarrow> a < length (agents w)"
    using assms(1) by (auto simp: consistent_def list_all_iff deref_def split: if_splits)
  have fresh: "length (agents w) \<notin> set (dict_values (registry w))"
  proof
    assume "length (agents w) \<in> set (dict_values (registry w))"
    then obtain q where "(q, length (agents w)) \<in> set (registry w)"
      by (auto simp: dict_values_def)
    from bound [OF this] show False by simp
  qed
  have ls_fresh: "length (servers w) \<notin> language_server ` set (agents w)"
    using assms(1) by (auto simp: consistent_def list_all_iff)
  have w1: "w1 = w\<lparr>registry := registry w @ [(p, length (agents w))],
              agents := agents w @ [\<lparr>project_file = p, tools = agent_tools env p,
                                     language_server = length (servers w)\<rparr>],
              servers := servers w @ [\<lparr>running = True\<rparr>],
              events := events w @ [LogInfo (''Creating new SerenaAgent for project file: '' @ p),
                                    AgentInit p (length (agents w)),
                                    LanguageServerStart (length (servers w))]\<rparr>"
    using assms(2) False by (simp add: get_create_new)
  have "distinct (dict_keys (registry w1))"
    using assms(1) False by (simp add: w1 consistent_def dict_keys_def)
  moreover have "distinct (dict_values (registry w1))"
    using assms(1) fresh by (simp add: w1 consistent_def dict_values_def)
  moreover have "distinct (map language_server (agents w1))"
    using assms(1) ls_fresh by (simp add: w1 consistent_def)
  moreover have "list_all (\<lambda>ag. language_server ag < length (servers w1)) (agents w1)"
    using assms(1) by (auto simp: w1 consistent_def list_all_iff)
  moreover have "list_all (\<lambda>(p, a). case deref (agents w1) a of
                           None \<Rightarrow> False
                         | Some ag \<Rightarrow> project_file ag = p
                             \<and> AgentInit p a \<in> set (events w1)
                             \<and> LanguageServerStart (language_server ag) \<in> set (events w1))
              (registry w1)"
    using assms(1) bound
    by (auto simp: w1 consistent_def list_all_iff deref_def nth_append split: if_splits)
  ultimately show ?thesis
    by (simp add: consistent_def)
qed

lemma consistent_world_a: "consistent world_a"
  unfolding world_a_def
  by (rule consistent_get_create [OF consistent_initial]) (rule prod.collapse [symmetric])

lemma consistent_world_ab: "consistent world_ab"
  unfolding world_ab_def
  by (rule consistent_get_create [OF consistent_world_a]) (rule prod.collapse [symmetric])

lemma consistent_world_abc: "consistent world_abc"
  unfolding world_abc_def
  by (rule consistent_get_create [OF consistent_world_ab]) (rule prod.collapse [symmetric])

text \<open>
  C9. In a consistent world, the lookups of two different project files return two
  different references, to two agents, each constructed for its project file, with two
  different language servers, each of which was started.
\<close>

theorem distinct_identifiers_distinct_agents:
  assumes "consistent w" and "p \<noteq> q"
      and "get_create_serena_agent env p w = (r1, w1)"
      and "get_create_serena_agent env q w1 = (r2, w2)"
  shows "\<exists>a b ag bg. r1 = Inr a \<and> r2 = Inr b \<and> a \<noteq> b
           \<and> map_of (registry w2) p = Some a \<and> map_of (registry w2) q = Some b
           \<and> deref (agents w2) a = Some ag \<and> deref (agents w2) b = Some bg
           \<and> project_file ag = p \<and> project_file bg = q
           \<and> language_server ag \<noteq> language_server bg
           \<and> language_server ag < length (servers w2) \<and> language_server bg < length (servers w2)
           \<and> AgentInit p a \<in> set (events w2) \<and> AgentInit q b \<in> set (events w2)
           \<and> LanguageServerStart (language_server ag) \<in> set (events w2)
           \<and> LanguageServerStart (language_server bg) \<in> set (events w2)"
proof -
  have c1: "consistent w1" using consistent_get_create [OF assms(1,3)] .
  have c2: "consistent w2" using consistent_get_create [OF c1 assms(4)] .
  from get_create_registers [OF assms(3)]
  obtain a where a: "r1 = Inr a" "map_of (registry w1) p = Some a" by blast
  from get_create_registers [OF assms(4)]
  obtain b where b: "r2 = Inr b" "map_of (registry w2) q = Some b" by blast
  have a2: "map_of (registry w2) p = Some a"
    using get_create_keeps [OF a(2) assms(4)] .
  have pa: "(p, a) \<in> set (registry w2)" using a2 by (rule map_of_SomeD)
  have qb: "(q, b) \<in> set (registry w2)" using b(2) by (rule map_of_SomeD)
  from pa c2 obtain ag where ag: "deref (agents w2) a = Some ag" "project_file ag = p"
      "AgentInit p a \<in> set (events w2)" "LanguageServerStart (language_server ag) \<in> set (events w2)"
    by (fastforce simp: consistent_def list_all_iff split: option.splits)
  from qb c2 obtain bg where bg: "deref (agents w2) b = Some bg" "project_file bg = q"
      "AgentInit q b \<in> set (events w2)" "LanguageServerStart (language_server bg) \<in> set (events w2)"
    by (fastforce simp: consistent_def list_all_iff split: option.splits)
  have ab: "a \<noteq> b"
    using ag(1,2) bg(1,2) assms(2) by auto
  have lt: "a < length (agents w2)" "b < length (agents w2)" "agents w2 ! a = ag" "agents w2 ! b = bg"
    using ag(1) bg(1) by (auto simp: deref_def split: if_splits)
  have "distinct (map language_server (agents w2))"
    using c2 by (simp add: consistent_def)
  then have ls: "language_server ag \<noteq> language_server bg"
    using lt ab by (metis length_map nth_eq_iff_index_eq nth_map)
  have bounds: "language_server ag < length (servers w2)" "language_server bg < length (servers w2)"
    using c2 lt by (auto simp: consistent_def list_all_iff dest: nth_mem)
  from a(1) b(1) ab a2 b(2) ag bg ls bounds show ?thesis by blast
qed

theorem distinct_identifiers_distinct_agents_witness:
  "consistent initial_world
   \<and> get_create_serena_agent env0 ''a.yml'' initial_world = (Inr 0, world_a)
   \<and> get_create_serena_agent env0 ''b.yml'' world_a = (Inr 1, world_ab)
   \<and> deref (agents world_ab) 0 = Some \<lparr>project_file = ''a.yml'', tools = [], language_server = 0\<rparr>
   \<and> deref (agents world_ab) 1 = Some \<lparr>project_file = ''b.yml'', tools = [], language_server = 1\<rparr>
   \<and> LanguageServerStart 0 \<in> set (events world_ab)
   \<and> LanguageServerStart 1 \<in> set (events world_ab)"
proof -
  have ne: "''a.yml'' \<noteq> ''b.yml''" by simp
  have h1: "get_create_serena_agent env0 ''a.yml'' initial_world = (Inr 0, world_a)"
    by (simp add: world_a_eq get_create_serena_agent_def SerenaAgent_def emit_def
        initial_world_def dict_keys_def env0_def getitem_def)
  have h2: "get_create_serena_agent env0 ''b.yml'' world_a = (Inr 1, world_ab)"
    by (simp add: world_ab_eq world_a_eq get_create_serena_agent_def SerenaAgent_def emit_def
        dict_keys_def env0_def getitem_def)
  from distinct_identifiers_distinct_agents [OF consistent_initial ne h1 h2]
  obtain ag bg where "deref (agents world_ab) 0 = Some ag" "deref (agents world_ab) 1 = Some bg"
      "LanguageServerStart (language_server ag) \<in> set (events world_ab)"
      "LanguageServerStart (language_server bg) \<in> set (events world_ab)"
    by auto
  then show ?thesis
    using h1 h2 consistent_initial by (auto simp: world_ab_eq deref_def)
qed

section \<open>The lifespan: properties\<close>

lemma language_server_stop_frame:
  assumes "language_server_stop env a w = (r, w1)"
  shows "registry w1 = registry w \<and> agents w1 = agents w \<and> length (servers w1) = length (servers w)"
  using assms
  by (auto simp: language_server_stop_def emit_def Let_def split: option.splits)

lemma stop_all_frame:
  assumes "stop_all env as w = (r, w1)"
  shows "registry w1 = registry w \<and> agents w1 = agents w \<and> length (servers w1) = length (servers w)"
  using assms
proof (induction as arbitrary: w)
  case Nil
  then show ?case by simp
next
  case (Cons a as)
  obtain r' w' where step: "language_server_stop env a w = (r', w')"
    by (cases "language_server_stop env a w")
  note fr = language_server_stop_frame [OF step]
  show ?case
  proof (cases r')
    case (Inl e)
    with Cons.prems step fr show ?thesis by simp
  next
    case (Inr u)
    with Cons.prems step have "stop_all env as w' = (r, w1)" by simp
    from Cons.IH [OF this] fr show ?thesis by simp
  qed
qed

lemma stop_all_events:
  assumes "stop_all env as w = (r, w1)"
  shows "\<exists>es. events w1 = events w @ es"
  using assms
proof (induction as arbitrary: w)
  case Nil
  then show ?case by simp
next
  case (Cons a as)
  obtain r' w' where step: "language_server_stop env a w = (r', w')"
    by (cases "language_server_stop env a w")
  have grow: "\<exists>es. events w' = events w @ es"
    using step by (auto simp: language_server_stop_def emit_def Let_def split: option.splits)
  show ?case
  proof (cases r')
    case (Inl e)
    with Cons.prems step grow show ?thesis by simp
  next
    case (Inr u)
    with Cons.prems step have "stop_all env as w' = (r, w1)" by simp
    from Cons.IH [OF this] grow show ?thesis by auto
  qed
qed

lemma consistent_stop_all:
  assumes "consistent w" and "stop_all env as w = (r, w1)"
  shows "consistent w1"
proof -
  from stop_all_events [OF assms(2)] obtain es where es: "events w1 = events w @ es" by blast
  note fr = stop_all_frame [OF assms(2)]
  show ?thesis
    using assms(1) by (auto simp: consistent_def fr es list_all_iff split: option.splits)
qed

lemma backend_of_cong: "agents w1 = agents w \<Longrightarrow> backend_of w1 = backend_of w"
  by (simp add: backend_of_def fun_eq_iff)

lemma language_server_stop_clean:
  assumes "backend_of w a = Some l" and "stop_raises env l = None"
  shows "language_server_stop env a w =
           (Inr (), w\<lparr>servers := list_update (servers w) l \<lparr>running = False\<rparr>,
                      events := events w @ [LanguageServerStop l]\<rparr>)"
  using assms
  by (auto simp: language_server_stop_def backend_of_def emit_def Let_def split: option.splits)

lemma language_server_stop_fault:
  assumes "backend_of w a = Some l" and "stop_raises env l = Some e"
  shows "language_server_stop env a w = (Inl e, emit [LanguageServerStop l] w)"
  using assms
  by (auto simp: language_server_stop_def backend_of_def Let_def split: option.splits)

lemma stop_all_clean:
  assumes "list_all (stops_cleanly env w) as"
  shows "\<exists>w1. stop_all env as w = (Inr (), w1)
           \<and> events w1 = events w @ map LanguageServerStop (List.map_filter (backend_of w) as)
           \<and> (\<forall>l < length (servers w). servers w1 ! l =
                 (if l \<in> set (List.map_filter (backend_of w) as) then \<lparr>running = False\<rparr>
                  else servers w ! l))"
  using assms
proof (induction as arbitrary: w)
  case Nil
  then show ?case by (simp add: List.map_filter_simps)
next
  case (Cons a as)
  from Cons.prems obtain l where l: "backend_of w a = Some l" "stop_raises env l = None"
    by (auto simp: stops_cleanly_def split: option.splits)
  define w' where "w' = w\<lparr>servers := list_update (servers w) l \<lparr>running = False\<rparr>,
                          events := events w @ [LanguageServerStop l]\<rparr>"
  have step: "language_server_stop env a w = (Inr (), w')"
    unfolding w'_def using l by (rule language_server_stop_clean)
  have same: "backend_of w' = backend_of w"
    by (rule backend_of_cong) (simp add: w'_def)
  have "stops_cleanly env w' = stops_cleanly env w"
    by (simp add: stops_cleanly_def fun_eq_iff same)
  then have "list_all (stops_cleanly env w') as"
    using Cons.prems by simp
  from Cons.IH [OF this]
  obtain w1 where w1: "stop_all env as w' = (Inr (), w1)"
      "events w1 = events w' @ map LanguageServerStop (List.map_filter (backend_of w') as)"
      "\<forall>k < length (servers w'). servers w1 ! k =
                 (if k \<in> set (List.map_filter (backend_of w') as) then \<lparr>running = False\<rparr>
                  else servers w' ! k)"
    by blast
  have "stop_all env (a # as) w = (Inr (), w1)"
    using step w1(1) by simp
  moreover have "events w1 = events w @ map LanguageServerStop (List.map_filter (backend_of w) (a # as))"
    using w1(2) [unfolded same] l(1) by (simp add: w'_def List.map_filter_simps)
  moreover have "\<forall>k < length (servers w). servers w1 ! k =
                 (if k \<in> set (List.map_filter (backend_of w) (a # as)) then \<lparr>running = False\<rparr>
                  else servers w ! k)"
    using w1(3) [unfolded same] l(1) by (auto simp: w'_def List.map_filter_simps nth_list_update)
  ultimately show ?case by blast
qed

lemma stop_all_fault:
  assumes "list_all (stops_cleanly env w) xs"
      and "backend_of w a = Some l" and "stop_raises env l = Some e"
  shows "\<exists>w1. stop_all env (xs @ a # ys) w = (Inl e, w1)
           \<and> events w1 = events w @ map LanguageServerStop (List.map_filter (backend_of w) xs @ [l])
           \<and> (\<forall>k < length (servers w). servers w1 ! k =
                 (if k \<in> set (List.map_filter (backend_of w) xs) then \<lparr>running = False\<rparr>
                  else servers w ! k))"
  using assms
proof (induction xs arbitrary: w)
  case Nil
  then show ?case
    by (simp add: language_server_stop_fault emit_def List.map_filter_simps)
next
  case (Cons x xs)
  from Cons.prems(1) obtain m where m: "backend_of w x = Some m" "stop_raises env m = None"
    by (auto simp: stops_cleanly_def split: option.splits)
  define w' where "w' = w\<lparr>servers := list_update (servers w) m \<lparr>running = False\<rparr>,
                          events := events w @ [LanguageServerStop m]\<rparr>"
  have step: "language_server_stop env x w = (Inr (), w')"
    unfolding w'_def using m by (rule language_server_stop_clean)
  have same: "backend_of w' = backend_of w"
    by (rule backend_of_cong) (simp add: w'_def)
  have "stops_cleanly env w' = stops_cleanly env w"
    by (simp add: stops_cleanly_def fun_eq_iff same)
  then have "list_all (stops_cleanly env w') xs"
    using Cons.prems(1) by simp
  moreover have "backend_of w' a = Some l"
    using Cons.prems(2) by (simp add: same)
  ultimately obtain w1 where w1: "stop_all env (xs @ a # ys) w' = (Inl e, w1)"
      "events w1 = events w' @ map LanguageServerStop (List.map_filter (backend_of w') xs @ [l])"
      "\<forall>k < length (servers w'). servers w1 ! k =
                 (if k \<in> set (List.map_filter (backend_of w') xs) then \<lparr>running = False\<rparr>
                  else servers w' ! k)"
    using Cons.IH [of w'] Cons.prems(3) by blast
  have "stop_all env ((x # xs) @ a # ys) w = (Inl e, w1)"
    using step w1(1) by simp
  moreover have "events w1 = events w @ map LanguageServerStop (List.map_filter (backend_of w) (x # xs) @ [l])"
    using w1(2) [unfolded same] m(1) by (simp add: w'_def List.map_filter_simps)
  moreover have "\<forall>k < length (servers w). servers w1 ! k =
                 (if k \<in> set (List.map_filter (backend_of w) (x # xs)) then \<lparr>running = False\<rparr>
                  else servers w ! k)"
    using w1(3) [unfolded same] m(1) by (auto simp: w'_def List.map_filter_simps nth_list_update)
  ultimately show ?case by blast
qed

lemma map_filter_backend_of:
  "\<forall>a \<in> set vs. a < length (agents w) \<Longrightarrow>
     List.map_filter (backend_of w) vs = map (\<lambda>a. language_server (agents w ! a)) vs"
  by (induction vs) (auto simp: List.map_filter_simps backend_of_def deref_def)

lemma consistent_backends:
  assumes "consistent w"
  shows "map Some (registered_backends w) = map (backend_of w) (dict_values (registry w))"
    and "distinct (registered_backends w)"
    and "length (registered_backends w) = length (registry w)"
    and "\<forall>l \<in> set (registered_backends w). l < length (servers w)"
proof -
  let ?vs = "dict_values (registry w)"
  have ok: "\<forall>a \<in> set ?vs. a < length (agents w)"
    using assms by (auto simp: consistent_def list_all_iff dict_values_def deref_def split: if_splits)
  then have eq: "registered_backends w = map (\<lambda>a. language_server (agents w ! a)) ?vs"
    unfolding registered_backends_def by (rule map_filter_backend_of)
  show "map Some (registered_backends w) = map (backend_of w) ?vs"
    using ok by (simp add: eq backend_of_def deref_def)
  have dv: "distinct ?vs" and dl: "distinct (map language_server (agents w))"
    using assms by (simp_all add: consistent_def)
  have "inj_on (\<lambda>a. language_server (agents w ! a)) (set ?vs)"
  proof (rule inj_onI)
    fix a b assume "a \<in> set ?vs" "b \<in> set ?vs"
      and "language_server (agents w ! a) = language_server (agents w ! b)"
    with ok dl show "a = b"
      by (metis length_map nth_eq_iff_index_eq nth_map)
  qed
  with dv show "distinct (registered_backends w)"
    by (simp add: eq distinct_map)
  show "length (registered_backends w) = length (registry w)"
    by (simp add: eq dict_values_def)
  show "\<forall>l \<in> set (registered_backends w). l < length (servers w)"
    using assms ok by (auto simp: eq consistent_def list_all_iff)
qed

text \<open>The concrete run loops and environments, evaluated.\<close>

lemma register_late_bc:
  "register_late env_fault [''b.yml'', ''c.yml''] world_a = (Inr (), world_abc)"
  by (simp add: register_late_def world_abc_eq world_a_eq get_create_serena_agent_def
      SerenaAgent_def emit_def dict_keys_def env0_def env_fault_def getitem_def)

lemma register_late_b:
  "register_late env0 [''b.yml''] world_a = (Inr (), world_ab)"
  by (simp add: register_late_def world_ab_eq world_a_eq get_create_serena_agent_def
      SerenaAgent_def emit_def dict_keys_def env0_def getitem_def)

lemma stop_raises_env0: "stop_raises env0 l = None"
  by (simp add: env0_def)

lemma stop_raises_env_fault:
  "stop_raises env_fault l = (if l = 1 then Some (Exception ''stop failed'') else None)"
  by (simp add: env_fault_def env0_def)

lemma backend_of_world_ab: "backend_of world_ab 0 = Some 0" "backend_of world_ab (Suc 0) = Some 1"
  by (simp_all add: backend_of_def deref_def world_ab_eq)

lemma backend_of_world_abc:
  "backend_of world_abc 0 = Some 0" "backend_of world_abc (Suc 0) = Some 1" "backend_of world_abc 2 = Some 2"
  by (simp_all add: backend_of_def deref_def world_abc_eq)

lemma values_world_ab: "dict_values (registry world_ab) = [0, 1]"
  by (simp add: dict_values_def world_ab_eq)

lemma values_world_abc: "dict_values (registry world_abc) = [0, 1, 2]"
  by (simp add: dict_values_def world_abc_eq)

lemma serve_quietly_abc: "serve_quietly world_abc = (Inr (), world_abc)"
  by (simp add: serve_quietly_def)


text \<open>
  C3, as amended. When the run loop ends, with or without an exception, in a consistent
  world \<open>w1\<close>, and \<^verbatim>\<open>stop()\<close> of every registered agent's language server returns,
  then the lifespan ends as the run loop did and calls \<^verbatim>\<open>stop()\<close> on the language
  servers of the agents that the registry of \<open>w1\<close> holds, in its order, each exactly
  once: the registry is read at shutdown, whatever it was when the server started.
\<close>

theorem shutdown_stops_current_registry:
  assumes "body w = (r, w1)"
      and "consistent w1"
      and "list_all (stops_cleanly env w1) (dict_values (registry w1))"
  shows "\<exists>w2. server_lifespan env body w = (r, w2)
           \<and> events w2 = events w1 @ map LanguageServerStop (registered_backends w1)
           \<and> map Some (registered_backends w1) = map (backend_of w1) (dict_values (registry w1))
           \<and> (\<forall>l \<in> set (registered_backends w1).
                 count_list (drop (length (events w1)) (events w2)) (LanguageServerStop l) = 1)"
proof -
  from stop_all_clean [OF assms(3)]
  obtain w2 where w2: "stop_all env (dict_values (registry w1)) w1 = (Inr (), w2)"
      "events w2 = events w1 @ map LanguageServerStop (registered_backends w1)"
    by (auto simp: registered_backends_def)
  have run: "server_lifespan env body w = (r, w2)"
    using assms(1) w2(1) by (simp add: server_lifespan_def)
  note cb = consistent_backends [OF assms(2)]
  have once: "\<forall>l \<in> set (registered_backends w1).
                 count_list (drop (length (events w1)) (events w2)) (LanguageServerStop l) = 1"
  proof
    fix l assume l: "l \<in> set (registered_backends w1)"
    have "count_list (map LanguageServerStop (registered_backends w1)) (LanguageServerStop l)
            = count_list (registered_backends w1) l"
      by (rule count_list_map_conv) (simp add: inj_def)
    also have "\<dots> = 1"
      using cb(2) l by (rule count_list_distinct)
    finally show "count_list (drop (length (events w1)) (events w2)) (LanguageServerStop l) = 1"
      by (simp add: w2(2))
  qed
  from run w2(2) cb(1) once show ?thesis by blast
qed

theorem shutdown_stops_current_registry_witness:
  "register_late env0 [''b.yml''] world_a = (Inr (), world_ab)
   \<and> consistent world_ab
   \<and> list_all (stops_cleanly env0 world_ab) (dict_values (registry world_ab))
   \<and> registered_backends world_ab = [0, 1]
   \<and> fst (server_lifespan env0 (register_late env0 [''b.yml'']) world_a) = Inr ()
   \<and> events (snd (server_lifespan env0 (register_late env0 [''b.yml'']) world_a))
        = events world_ab @ [LanguageServerStop 0, LanguageServerStop 1]"
proof -
  have h3: "list_all (stops_cleanly env0 world_ab) (dict_values (registry world_ab))"
    by (simp add: values_world_ab stops_cleanly_def backend_of_world_ab stop_raises_env0)
  have rb: "registered_backends world_ab = [0, 1]"
    by (simp add: registered_backends_def values_world_ab backend_of_world_ab)
  from shutdown_stops_current_registry
         [of "register_late env0 [''b.yml'']" world_a "Inr ()" world_ab env0,
          OF register_late_b consistent_world_ab h3]
  show ?thesis
    using register_late_b consistent_world_ab h3 rb by auto
qed

text \<open>
  C3 as stated fails: \<^verbatim>\<open>a.yml\<close> is registered at startup, \<^verbatim>\<open>b.yml\<close> and \<^verbatim>\<open>c.yml\<close>
  while the server runs, and \<^verbatim>\<open>stop()\<close> of the language server of \<^verbatim>\<open>b.yml\<close> raises.
  At shutdown the registry holds the agent of \<^verbatim>\<open>c.yml\<close>, and \<^verbatim>\<open>stop()\<close> of its
  language server is never called.
\<close>

theorem shutdown_skips_late_agent_counterexample:
  "register_late env_fault [''b.yml'', ''c.yml''] world_a = (Inr (), world_abc)
   \<and> map_of (registry (snd (server_lifespan env_fault (register_late env_fault [''b.yml'', ''c.yml'']) world_a)))
        ''c.yml'' = Some 2
   \<and> backend_of (snd (server_lifespan env_fault (register_late env_fault [''b.yml'', ''c.yml'']) world_a)) 2
        = Some 2
   \<and> count_list (events (snd (server_lifespan env_fault (register_late env_fault [''b.yml'', ''c.yml'']) world_a)))
        (LanguageServerStop 2) = 0"
proof -
  have "server_lifespan env_fault (register_late env_fault [''b.yml'', ''c.yml'']) world_a
          = (Inl (Exception ''stop failed''),
             world_abc\<lparr>servers := [\<lparr>running = False\<rparr>, \<lparr>running = True\<rparr>, \<lparr>running = True\<rparr>],
                       events := events world_abc @ [LanguageServerStop 0, LanguageServerStop 1]\<rparr>)"
    by (simp add: server_lifespan_def register_late_bc values_world_abc language_server_stop_def
        deref_def emit_def stop_raises_env_fault world_abc_eq dict_values_def)
  then show ?thesis
    by (simp add: register_late_bc backend_of_def deref_def world_abc_eq)
qed

text \<open>
  C4, as amended. The sweep has no isolation: when \<^verbatim>\<open>stop()\<close> of the language server of
  a registered agent raises \<open>e\<close>, and those of the agents before it in the registry
  return, the lifespan ends with \<open>e\<close>; \<^verbatim>\<open>stop()\<close> has been called on the language
  servers of the agents up to and including that one, and is not called on those of the
  agents after it, which are left as they were.
\<close>

theorem shutdown_aborts_at_failing_stop:
  assumes "body w = (r, w1)"
      and "consistent w1"
      and "dict_values (registry w1) = xs @ a # ys"
      and "list_all (stops_cleanly env w1) xs"
      and "backend_of w1 a = Some l"
      and "stop_raises env l = Some e"
  shows "\<exists>w2. server_lifespan env body w = (Inl e, w2)
           \<and> events w2 = events w1 @ map LanguageServerStop (List.map_filter (backend_of w1) xs @ [l])
           \<and> (\<forall>y \<in> set ys. \<exists>k. backend_of w1 y = Some k
                 \<and> LanguageServerStop k \<notin> set (drop (length (events w1)) (events w2))
                 \<and> deref (servers w2) k = deref (servers w1) k)"
proof -
  from stop_all_fault [OF assms(4,5,6), of ys]
  obtain w2 where w2: "stop_all env (xs @ a # ys) w1 = (Inl e, w2)"
      "events w2 = events w1 @ map LanguageServerStop (List.map_filter (backend_of w1) xs @ [l])"
      "\<forall>k < length (servers w1). servers w2 ! k =
                 (if k \<in> set (List.map_filter (backend_of w1) xs) then \<lparr>running = False\<rparr>
                  else servers w1 ! k)"
    by blast
  have run: "server_lifespan env body w = (Inl e, w2)"
    using assms(1,3) w2(1) by (simp add: server_lifespan_def)
  have len: "length (servers w2) = length (servers w1)"
    using stop_all_frame [OF w2(1)] by simp
  note cb = consistent_backends [OF assms(2)]
  have split: "registered_backends w1 =
                 List.map_filter (backend_of w1) xs @ l # List.map_filter (backend_of w1) ys"
    using assms(3,5) by (simp add: registered_backends_def List.map_filter_def)
  have rest: "\<forall>y \<in> set ys. \<exists>k. backend_of w1 y = Some k
                 \<and> LanguageServerStop k \<notin> set (drop (length (events w1)) (events w2))
                 \<and> deref (servers w2) k = deref (servers w1) k"
  proof
    fix y assume y: "y \<in> set ys"
    have "backend_of w1 y \<in> set (map (backend_of w1) (dict_values (registry w1)))"
      using y assms(3) by simp
    then have "backend_of w1 y \<in> set (map Some (registered_backends w1))"
      by (simp only: cb(1))
    then obtain k where k: "backend_of w1 y = Some k" by auto
    then have kin: "k \<in> set (List.map_filter (backend_of w1) ys)"
      using y by (force simp: List.map_filter_def)
    then have notin: "k \<notin> set (List.map_filter (backend_of w1) xs)" "k \<noteq> l"
      using cb(2) by (auto simp: split)
    have klt: "k < length (servers w1)"
      using cb(4) kin by (simp add: split)
    have "LanguageServerStop k \<notin> set (drop (length (events w1)) (events w2))"
      using notin by (auto simp: w2(2))
    moreover have "deref (servers w2) k = deref (servers w1) k"
      using w2(3) klt notin(1) len by (simp add: deref_def)
    ultimately show "\<exists>k. backend_of w1 y = Some k
                 \<and> LanguageServerStop k \<notin> set (drop (length (events w1)) (events w2))
                 \<and> deref (servers w2) k = deref (servers w1) k"
      using k by blast
  qed
  from run w2(2) rest show ?thesis by blast
qed

theorem shutdown_aborts_at_failing_stop_witness:
  "serve_quietly world_abc = (Inr (), world_abc)
   \<and> consistent world_abc
   \<and> dict_values (registry world_abc) = [0] @ 1 # [2]
   \<and> list_all (stops_cleanly env_fault world_abc) [0]
   \<and> backend_of world_abc 1 = Some 1
   \<and> stop_raises env_fault 1 = Some (Exception ''stop failed'')
   \<and> fst (server_lifespan env_fault serve_quietly world_abc) = Inl (Exception ''stop failed'')
   \<and> events (snd (server_lifespan env_fault serve_quietly world_abc))
        = events world_abc @ [LanguageServerStop 0, LanguageServerStop 1]
   \<and> deref (servers (snd (server_lifespan env_fault serve_quietly world_abc))) 2
        = Some \<lparr>running = True\<rparr>"
proof -
  have h3: "dict_values (registry world_abc) = [0] @ 1 # [2]"
    by (simp add: values_world_abc)
  have h4: "list_all (stops_cleanly env_fault world_abc) [0]"
    by (simp add: stops_cleanly_def backend_of_world_abc stop_raises_env_fault)
  have h5: "backend_of world_abc 1 = Some 1"
    by (simp add: backend_of_world_abc)
  have h6: "stop_raises env_fault 1 = Some (Exception ''stop failed'')"
    by (simp add: stop_raises_env_fault)
  have s2: "deref (servers world_abc) 2 = Some \<lparr>running = True\<rparr>"
    by (simp add: deref_def world_abc_eq)
  from shutdown_aborts_at_failing_stop
         [of serve_quietly world_abc "Inr ()" world_abc "[0]" 1 "[2]" env_fault 1 "Exception ''stop failed''",
          OF serve_quietly_abc consistent_world_abc h3 h4 h5 h6]
  show ?thesis
    using serve_quietly_abc consistent_world_abc h3 h4 h5 h6 s2
    by (auto simp: backend_of_world_abc)
qed

text \<open>
  C4 as stated fails: with three registered agents and a second language server whose
  \<^verbatim>\<open>stop()\<close> raises, the sweep ends with that exception and never calls \<^verbatim>\<open>stop()\<close>
  on the third.
\<close>

theorem failing_stop_blocks_remaining_counterexample:
  "dict_values (registry world_abc) = [0, 1, 2]
   \<and> stop_raises env_fault 1 = Some (Exception ''stop failed'')
   \<and> stop_all env_fault (dict_values (registry world_abc)) world_abc
        = (Inl (Exception ''stop failed''),
           world_abc\<lparr>servers := [\<lparr>running = False\<rparr>, \<lparr>running = True\<rparr>, \<lparr>running = True\<rparr>],
                     events := events world_abc @ [LanguageServerStop 0, LanguageServerStop 1]\<rparr>)
   \<and> LanguageServerStop 2 \<notin> set (events world_abc @ [LanguageServerStop 0, LanguageServerStop 1])"
  by (simp add: values_world_abc language_server_stop_def deref_def emit_def
      stop_raises_env_fault world_abc_eq dict_values_def)



section \<open>The procedure table: properties\<close>



section \<open>The entry point: properties\<close>

text \<open>
  C5. With an argument count other than one (\<^verbatim>\<open>sys.argv\<close> without the program name is
  empty or has two or more entries), the usage message goes to the standard error stream
  and \<^verbatim>\<open>SystemExit(1)\<close> ends the process with status 1; the registry, the agents and the
  language servers are what they were, and nothing else has happened.
\<close>

theorem create_mcp_server_usage_error:
  assumes "length (drop 1 sys_argv) \<noteq> 1"
  shows "start_mcp_server env sys_argv serve w = (Inl (SystemExit 1), emit [Stderr usage] w)
       \<and> create_mcp_server env sys_argv w = (Inl (SystemExit 1), emit [Stderr usage] w)
       \<and> exit_status (fst (start_mcp_server env sys_argv serve w)) \<noteq> 0
       \<and> registry (emit [Stderr usage] w) = registry w
       \<and> agents (emit [Stderr usage] w) = agents w
       \<and> servers (emit [Stderr usage] w) = servers w
       \<and> events (emit [Stderr usage] w) = events w @ [Stderr usage]"
  using assms by (simp add: start_mcp_server_def create_mcp_server_def emit_def)

theorem create_mcp_server_usage_error_witness:
  "start_mcp_server env0 [''mcp_server''] (\<lambda>m w. (Inr (), w)) initial_world
     = (Inl (SystemExit 1), \<lparr>registry = [], agents = [], servers = [], events = [Stderr usage]\<rparr>)
   \<and> start_mcp_server env0 [''mcp_server'', ''a.yml'', ''b.yml''] (\<lambda>m w. (Inr (), w)) initial_world
     = (Inl (SystemExit 1), \<lparr>registry = [], agents = [], servers = [], events = [Stderr usage]\<rparr>)"
  using create_mcp_server_usage_error [of "[''mcp_server'']" env0 "\<lambda>m w. (Inr (), w)" initial_world]
        create_mcp_server_usage_error [of "[''mcp_server'', ''a.yml'', ''b.yml'']" env0 "\<lambda>m w. (Inr (), w)" initial_world]
  by (simp add: emit_def initial_world_def)

end
